theory Spec2Isabelle
  imports Complex_Main
begin

section \<open>Numbers\<close>

text \<open>
  Source: \<^verbatim>\<open>src/dist/fractus.js\<close> (the compiled script; the first TypeScript listing in
  the same file is its source and agrees with it line by line).

  A JavaScript \<^verbatim>\<open>number\<close> is modelled by a real: the development covers the finite
  values and ignores rounding. The two places where the script can leave the finite
  numbers on finite input are written out: the division by \<^verbatim>\<open>cAbs(z)\<close> in
  \<^verbatim>\<open>smoothIters\<close>, and a canvas without area in \<^verbatim>\<open>genFractal\<close>.
  The iteration budget and the canvas dimensions are natural numbers.
\<close>

type_synonym cnum = "real \<times> real"
  \<comment> \<open>\<^verbatim>\<open>type complex = [number, number]\<close>\<close>

definition cAdd :: "cnum \<Rightarrow> cnum \<Rightarrow> cnum" where
  "cAdd z1 z2 = (fst z1 + fst z2, snd z1 + snd z2)"

definition cMult :: "cnum \<Rightarrow> cnum \<Rightarrow> cnum" where
  "cMult z1 z2 = (fst z1 * fst z2 - snd z1 * snd z2, fst z1 * snd z2 + snd z1 * fst z2)"

definition cAbs2 :: "cnum \<Rightarrow> real" where
  "cAbs2 z = (fst z)\<^sup>2 + (snd z)\<^sup>2"

definition cAbs :: "cnum \<Rightarrow> real" where
  "cAbs z = sqrt (cAbs2 z)"

text \<open>
  The remainder operator \<^verbatim>\<open>%\<close> on numbers truncates the quotient towards zero.
  The divisor is not zero wherever the theorems below use it.
\<close>

definition trunc :: "real \<Rightarrow> int" where
  "trunc x = (if 0 \<le> x then \<lfloor>x\<rfloor> else \<lceil>x\<rceil>)"

definition js_rem :: "real \<Rightarrow> real \<Rightarrow> real" where
  "js_rem a b = a - b * of_int (trunc (a / b))"


section \<open>Color functions\<close>

text \<open>
  A channel value is a number; \<open>None\<close> stands for \<^verbatim>\<open>NaN\<close>.
  \<^verbatim>\<open>type color = [number, number, number, number]\<close>.
\<close>

type_synonym chan = "real option"
type_synonym color = "chan \<times> chan \<times> chan \<times> chan"

text \<open>
  \<^verbatim>\<open>return iters + 1 - Math.log(2) / cAbs(z) / Math.log(2);\<close>
  With \<^verbatim>\<open>cAbs(z) = 0\<close> the quotient is \<^verbatim>\<open>Infinity\<close> and the result
  \<^verbatim>\<open>-Infinity\<close>: that is \<open>None\<close> here.
\<close>

definition smoothIters :: "real \<Rightarrow> cnum \<Rightarrow> real option" where
  "smoothIters iters z =
     (if cAbs z = 0 then None else Some (iters + 1 - ln 2 / cAbs z / ln 2))"

type_synonym PCLChannelParams = "real \<times> real \<times> real option"
  \<comment> \<open>frequency, phase, and an optional minimum\<close>
type_synonym PCLParams = "PCLChannelParams \<times> PCLChannelParams \<times> PCLChannelParams"

text \<open>
  One channel of the phased color loop:
  \<^verbatim>\<open>let [f, p, min = 0] = params[chan]; return Math.sin(f * si + p) * (255 - min) + min;\<close>
  The sine of an infinite argument is \<^verbatim>\<open>NaN\<close>, and so is the channel then.
\<close>

definition pclChannel :: "real option \<Rightarrow> PCLChannelParams \<Rightarrow> chan" where
  "pclChannel si prm =
     (case prm of (f, p, mn) \<Rightarrow>
        (let min = (case mn of None \<Rightarrow> 0 | Some m \<Rightarrow> m) in
         case si of
           None \<Rightarrow> None
         | Some s \<Rightarrow> Some (sin (f * s + p) * (255 - min) + min)))"

definition makePhasedColorLoop :: "PCLParams \<Rightarrow> real \<Rightarrow> cnum \<Rightarrow> color" where
  "makePhasedColorLoop params i z =
     (case params of (pr, pg, pb) \<Rightarrow>
        (let si = smoothIters i z in
         (pclChannel si pr, pclChannel si pg, pclChannel si pb, Some 255)))"

definition whiteEscape :: "real \<Rightarrow> cnum \<Rightarrow> color" where
  "whiteEscape i z = (Some 255, Some 255, Some 255, Some 255)"

definition pcl :: "real \<Rightarrow> cnum \<Rightarrow> color" where
  "pcl = makePhasedColorLoop
           ((16 / 1000, 4, Some 25), (13 / 100, 2, Some 25), (1 / 100, 1, Some 25))"


section \<open>Canvas and complex plane\<close>

record canvas =
  width :: nat
  height :: nat

record frac_params =
  vw :: real
  vh :: real
  bl :: cnum
  max_iters :: nat
  iterFunc :: "cnum \<Rightarrow> cnum \<Rightarrow> cnum"
  colorFunc :: "real \<Rightarrow> cnum \<Rightarrow> color"

definition pxCoord2Index :: "canvas \<Rightarrow> real \<times> real \<Rightarrow> real" where
  "pxCoord2Index draw_area coord =
     (case coord of (x, y) \<Rightarrow> 4 * (y * real (width draw_area) + x))"

definition pxIndex2Coord :: "canvas \<Rightarrow> real \<Rightarrow> real \<times> real" where
  "pxIndex2Coord draw_area index =
     (let n = index / 4;
          x = js_rem n (real (width draw_area))
      in (x, (n - x) / real (width draw_area)))"

definition pxCoord2CompTile :: "canvas \<Rightarrow> real \<times> real \<Rightarrow> cnum" where
  "pxCoord2CompTile draw_area pxcoord =
     (case pxcoord of (px, py) \<Rightarrow> (px, real (height draw_area) - py))"

definition compTile2PxCoord :: "canvas \<Rightarrow> cnum \<Rightarrow> real \<times> real" where
  "compTile2PxCoord draw_area tile =
     (case tile of (tx, ty) \<Rightarrow> (tx, real (height draw_area) - ty))"

definition tile2Comp :: "frac_params \<Rightarrow> canvas \<Rightarrow> cnum \<Rightarrow> cnum" where
  "tile2Comp fp draw_area tile =
     (case tile of (tx, ty) \<Rightarrow>
        (fst (bl fp) + (vw fp / real (width draw_area)) * tx,
         snd (bl fp) + (vh fp / real (height draw_area)) * ty))"

definition pixelIndexToComp :: "frac_params \<Rightarrow> canvas \<Rightarrow> real \<Rightarrow> cnum" where
  "pixelIndexToComp fp draw_area index =
     tile2Comp fp draw_area (pxCoord2CompTile draw_area (pxIndex2Coord draw_area index))"

definition frac_params_init :: frac_params where
  "frac_params_init =
     \<lparr> vw = 4, vh = 2, bl = (- 3, - 1), max_iters = 1000,
       iterFunc = (\<lambda>z c. cAdd (cMult z z) c),
       colorFunc = pcl \<rparr>"


section \<open>The escape loop\<close>

text \<open>
  \<^verbatim>\<open>for (; tally < max_iters; tally++) { z = iterFunc(z, c); if (cAbs2(z) > 4) break; }\<close>
  The loop leaves \<^verbatim>\<open>tally\<close> and \<^verbatim>\<open>z\<close>; \<open>applied\<close> is a ghost counter of the calls
  of \<^verbatim>\<open>iterFunc\<close>.
\<close>

record esc =
  tally :: nat
  zfin :: cnum
  applied :: nat

function escLoop :: "(cnum \<Rightarrow> cnum \<Rightarrow> cnum) \<Rightarrow> cnum \<Rightarrow> nat \<Rightarrow> nat \<Rightarrow> cnum \<Rightarrow> nat \<Rightarrow> esc" where
  "escLoop f c m t z k =
     (if t < m then
        (if cAbs2 (f z c) > 4
         then \<lparr> tally = t, zfin = f z c, applied = k + 1 \<rparr>
         else escLoop f c m (t + 1) (f z c) (k + 1))
      else \<lparr> tally = t, zfin = z, applied = k \<rparr>)"
  by pat_completeness auto
termination
  by (relation "measure (\<lambda>(f, c, m, t, z, k). m - t)") auto

declare escLoop.simps [simp del]

text \<open>The loop as \<^verbatim>\<open>genFractal\<close> starts it: \<^verbatim>\<open>let z = [0, 0]; let tally = 0;\<close>\<close>

definition escapeTime :: "frac_params \<Rightarrow> cnum \<Rightarrow> esc" where
  "escapeTime fp c = escLoop (iterFunc fp) c (max_iters fp) 0 (0, 0) 0"

text \<open>
  The two outcomes, as the test \<^verbatim>\<open>tally === frac_params.max_iters\<close> after the loop
  tells them apart.
\<close>

datatype IterationResult = Captured | Escaped nat

definition iterationResult :: "frac_params \<Rightarrow> cnum \<Rightarrow> IterationResult" where
  "iterationResult fp c =
     (if tally (escapeTime fp c) = max_iters fp then Captured
      else Escaped (tally (escapeTime fp c)))"

text \<open>
  The color of one pixel: the branch after the loop.
  \<^verbatim>\<open>if (tally === max_iters) [0, 0, 0, 255] else colorFunc(tally, c)\<close>
\<close>

definition pixelColor :: "frac_params \<Rightarrow> cnum \<Rightarrow> color" where
  "pixelColor fp c =
     (if tally (escapeTime fp c) = max_iters fp
      then (Some 0, Some 0, Some 0, Some 255)
      else colorFunc fp (real (tally (escapeTime fp c))) c)"


section \<open>The frame renderer\<close>

text \<open>
  The image data is a \<^verbatim>\<open>Uint8ClampedArray\<close>: a stored number is clamped to
  \<open>[0, 255]\<close> and rounded to the nearest integer, ties to even; \<^verbatim>\<open>NaN\<close> is stored
  as 0; a write past the end is ignored.
\<close>

definition toUint8Clamp :: "chan \<Rightarrow> nat" where
  "toUint8Clamp v =
     (case v of
        None \<Rightarrow> 0
      | Some x \<Rightarrow>
          (if x \<le> 0 then 0
           else if 255 \<le> x then 255
           else (let f = \<lfloor>x\<rfloor> in
                 if real_of_int f + 1 / 2 < x then nat (f + 1)
                 else if x < real_of_int f + 1 / 2 then nat f
                 else if even f then nat f else nat (f + 1))))"

definition setPixelColor :: "nat list \<Rightarrow> nat \<Rightarrow> color \<Rightarrow> nat list" where
  "setPixelColor data index col =
     (case col of (r, g, b, a) \<Rightarrow>
        data[index := toUint8Clamp r, index + 1 := toUint8Clamp g,
             index + 2 := toUint8Clamp b, index + 3 := toUint8Clamp a])"

text \<open>
  \<^verbatim>\<open>for (let pxi = 0; pxi < imgdata.data.length; pxi += 4)\<close>
  The second component is a ghost counter: the calls of \<^verbatim>\<open>iterFunc\<close> of the pass.
\<close>

function pixelLoop :: "frac_params \<Rightarrow> canvas \<Rightarrow> nat list \<Rightarrow> nat \<Rightarrow> nat \<Rightarrow> nat list \<times> nat" where
  "pixelLoop fp draw_area data pxi n =
     (if pxi < length data then
        pixelLoop fp draw_area
          (setPixelColor data pxi (pixelColor fp (pixelIndexToComp fp draw_area (real pxi))))
          (pxi + 4)
          (n + applied (escapeTime fp (pixelIndexToComp fp draw_area (real pxi))))
      else (data, n))"
  by pat_completeness auto
termination
  by (relation "measure (\<lambda>(fp, draw_area, data, pxi, n). length data - pxi)")
     (auto simp: setPixelColor_def split: prod.splits)

declare pixelLoop.simps [simp del]

text \<open>
  \<^verbatim>\<open>ctx.getImageData(0, 0, draw_area.width, draw_area.height)\<close> throws an
  \<^verbatim>\<open>IndexSizeError\<close> for a canvas without area; otherwise the pass runs over the
  bitmap of the canvas and \<^verbatim>\<open>putImageData\<close> stores the result.
\<close>

datatype error = IndexSizeError

definition genFractal :: "frac_params \<Rightarrow> canvas \<Rightarrow> nat list \<Rightarrow> error + nat list" where
  "genFractal fp draw_area bitmap =
     (if width draw_area = 0 \<or> height draw_area = 0 then Inl IndexSizeError
      else Inr (fst (pixelLoop fp draw_area bitmap 0 0)))"

definition genFractalCalls :: "frac_params \<Rightarrow> canvas \<Rightarrow> nat list \<Rightarrow> nat" where
  "genFractalCalls fp draw_area bitmap = snd (pixelLoop fp draw_area bitmap 0 0)"


section \<open>User interface\<close>

text \<open>
  The click handler of the canvas, up to the call of \<^verbatim>\<open>genFractal\<close>: the clicked
  complex number is computed from the old parameters, then the view is halved around it.
\<close>

definition clicked :: "frac_params \<Rightarrow> canvas \<Rightarrow> real \<times> real \<Rightarrow> cnum" where
  "clicked fp draw_area pxcoord = tile2Comp fp draw_area (pxCoord2CompTile draw_area pxcoord)"

definition click :: "frac_params \<Rightarrow> canvas \<Rightarrow> real \<times> real \<Rightarrow> frac_params" where
  "click fp draw_area pxcoord =
     (let comp = clicked fp draw_area pxcoord;
          fp1 = fp\<lparr>vw := vw fp * (1 / 2)\<rparr>;
          fp2 = fp1\<lparr>vh := vh fp1 * (1 / 2)\<rparr>
      in fp2\<lparr>bl := (fst comp - (1 / 2) * vw fp2, snd comp - (1 / 2) * vh fp2)\<rparr>)"

definition reset :: "frac_params \<Rightarrow> frac_params" where
  "reset fp = fp\<lparr>vw := 4, vh := 2, bl := (- 3, - 1), max_iters := 1000\<rparr>"

section \<open>The iterates of the map\<close>

text \<open>
  The iterates of the map from a start value, for stating what the loop computes:
  \<open>orbit f c z n\<close> is \<open>z\<close> after \<open>n\<close> applications of \<open>\<lambda>w. f w c\<close>.
\<close>

definition orbit :: "(cnum \<Rightarrow> cnum \<Rightarrow> cnum) \<Rightarrow> cnum \<Rightarrow> cnum \<Rightarrow> nat \<Rightarrow> cnum" where
  "orbit f c z n = ((\<lambda>w. f w c) ^^ n) z"


section \<open>The escape loop: what it computes\<close>

lemma orbit_0 [simp]: "orbit f c z 0 = z"
  by (simp add: orbit_def)

lemma orbit_Suc_shift: "orbit f c z (Suc n) = orbit f c (f z c) n"
  by (simp add: orbit_def funpow_swap1 [of "\<lambda>w. f w c"])

lemma escLoop_applied_le: "applied (escLoop f c m t z k) \<le> k + (m - t)"
proof (induction f c m t z k rule: escLoop.induct)
  case (1 f c m t z k)
  show ?case
  proof (cases "t < m \<and> \<not> cAbs2 (f z c) > 4")
    case True
    then have "escLoop f c m t z k = escLoop f c m (t + 1) (f z c) (k + 1)"
      by (simp add: escLoop.simps [of f c m t])
    moreover have "applied (escLoop f c m (t + 1) (f z c) (k + 1)) \<le> (k + 1) + (m - (t + 1))"
      using True "1.IH" by simp
    ultimately show ?thesis using True by auto
  next
    case False
    then show ?thesis by (auto simp: escLoop.simps [of f c m t])
  qed
qed

lemma escLoop_captured:
  "t \<le> m \<Longrightarrow> \<forall>j < m - t. \<not> cAbs2 (orbit f c z (Suc j)) > 4 \<Longrightarrow>
   escLoop f c m t z k = \<lparr> tally = m, zfin = orbit f c z (m - t), applied = k + (m - t) \<rparr>"
proof (induction f c m t z k rule: escLoop.induct)
  case (1 f c m t z k)
  show ?case
  proof (cases "t < m")
    case True
    then have "0 < m - t" by simp
    with "1.prems"(2) have ne: "\<not> cAbs2 (f z c) > 4"
      by (auto simp: orbit_def dest: spec [of _ 0])
    have "\<forall>j < m - (t + 1). \<not> cAbs2 (orbit f c (f z c) (Suc j)) > 4"
    proof (intro allI impI)
      fix j assume "j < m - (t + 1)"
      then have "Suc j < m - t" by simp
      with "1.prems"(2) have "\<not> cAbs2 (orbit f c z (Suc (Suc j))) > 4" by blast
      then show "\<not> cAbs2 (orbit f c (f z c) (Suc j)) > 4"
        by (simp add: orbit_Suc_shift)
    qed
    with "1.IH" True ne
    have "escLoop f c m (t + 1) (f z c) (k + 1) =
          \<lparr> tally = m, zfin = orbit f c (f z c) (m - (t + 1)), applied = (k + 1) + (m - (t + 1)) \<rparr>"
      by simp
    moreover have "orbit f c (f z c) (m - (t + 1)) = orbit f c z (m - t)"
      using True orbit_Suc_shift [of f c z "m - (t + 1)"] by (simp add: Suc_diff_Suc)
    ultimately show ?thesis using True ne by (simp add: escLoop.simps [of f c m t])
  next
    case False
    with "1.prems" have "t = m" by simp
    then show ?thesis by (simp add: escLoop.simps [of f c m m])
  qed
qed

lemma escLoop_escaped:
  "j < m - t \<Longrightarrow> cAbs2 (orbit f c z (Suc j)) > 4 \<Longrightarrow>
   \<forall>i < j. \<not> cAbs2 (orbit f c z (Suc i)) > 4 \<Longrightarrow>
   escLoop f c m t z k = \<lparr> tally = t + j, zfin = orbit f c z (Suc j), applied = k + j + 1 \<rparr>"
proof (induction j arbitrary: t z k)
  case 0
  then show ?case by (simp add: escLoop.simps [of f c m t] orbit_def)
next
  case (Suc j)
  from Suc.prems(3) have ne: "\<not> cAbs2 (f z c) > 4"
    by (auto simp: orbit_def dest: spec [of _ 0])
  have a: "j < m - (t + 1)" using Suc.prems(1) by simp
  have b: "cAbs2 (orbit f c (f z c) (Suc j)) > 4"
    using Suc.prems(2) by (simp add: orbit_Suc_shift)
  have c: "\<forall>i < j. \<not> cAbs2 (orbit f c (f z c) (Suc i)) > 4"
  proof (intro allI impI)
    fix i assume "i < j"
    then have "Suc i < Suc j" by simp
    with Suc.prems(3) have "\<not> cAbs2 (orbit f c z (Suc (Suc i))) > 4" by blast
    then show "\<not> cAbs2 (orbit f c (f z c) (Suc i)) > 4"
      by (simp add: orbit_Suc_shift)
  qed
  have "escLoop f c m (t + 1) (f z c) (k + 1) =
        \<lparr> tally = (t + 1) + j, zfin = orbit f c (f z c) (Suc j), applied = (k + 1) + j + 1 \<rparr>"
    by (rule Suc.IH [OF a b c])
  moreover have "t < m" using Suc.prems(1) by simp
  ultimately show ?case using ne
    by (simp add: escLoop.simps [of f c m t] orbit_Suc_shift [of f c z "Suc j"])
qed


lemma escLoop_applied_ge: "k \<le> applied (escLoop f c m t z k)"
proof (induction f c m t z k rule: escLoop.induct)
  case (1 f c m t z k)
  show ?case
  proof (cases "t < m \<and> \<not> cAbs2 (f z c) > 4")
    case True
    then have "escLoop f c m t z k = escLoop f c m (t + 1) (f z c) (k + 1)"
      by (simp add: escLoop.simps [of f c m t])
    moreover have "k + 1 \<le> applied (escLoop f c m (t + 1) (f z c) (k + 1))"
      using True "1.IH" by simp
    ultimately show ?thesis by simp
  next
    case False
    then show ?thesis by (auto simp: escLoop.simps [of f c m t])
  qed
qed

lemma escLoop_applies_first: "0 < m \<Longrightarrow> 1 \<le> applied (escLoop f c m 0 z 0)"
  using escLoop_applied_ge [of 1 f c m 1 "f z c"]
  by (simp add: escLoop.simps [of f c m 0])

lemma escapeTime_cases:
  "(( \<forall>j < max_iters fp. \<not> cAbs2 (orbit (iterFunc fp) c (0, 0) (Suc j)) > 4) \<and>
     escapeTime fp c =
       \<lparr> tally = max_iters fp, zfin = orbit (iterFunc fp) c (0, 0) (max_iters fp),
         applied = max_iters fp \<rparr>)
   \<or> (\<exists>k < max_iters fp.
        cAbs2 (orbit (iterFunc fp) c (0, 0) (Suc k)) > 4 \<and>
        (\<forall>j < k. \<not> cAbs2 (orbit (iterFunc fp) c (0, 0) (Suc j)) > 4) \<and>
        escapeTime fp c =
          \<lparr> tally = k, zfin = orbit (iterFunc fp) c (0, 0) (Suc k), applied = k + 1 \<rparr>)"
proof (cases "\<exists>j < max_iters fp. cAbs2 (orbit (iterFunc fp) c (0, 0) (Suc j)) > 4")
  case False
  then have all: "\<forall>j < max_iters fp - 0. \<not> cAbs2 (orbit (iterFunc fp) c (0, 0) (Suc j)) > 4"
    by simp
  have "escapeTime fp c =
       \<lparr> tally = max_iters fp, zfin = orbit (iterFunc fp) c (0, 0) (max_iters fp - 0),
         applied = 0 + (max_iters fp - 0) \<rparr>"
    unfolding escapeTime_def by (rule escLoop_captured [OF _ all]) simp
  with False show ?thesis by simp
next
  case True
  define P where "P j \<longleftrightarrow> j < max_iters fp \<and> cAbs2 (orbit (iterFunc fp) c (0, 0) (Suc j)) > 4" for j
  define k where "k = (LEAST j. P j)"
  from True have ex: "\<exists>j. P j" by (auto simp: P_def)
  then have Pk: "P k" unfolding k_def by (auto intro: LeastI)
  have least: "\<not> P j" if "j < k" for j
    using that not_less_Least unfolding k_def by blast
  have k1: "k < max_iters fp - 0" using Pk by (simp add: P_def)
  have k2: "cAbs2 (orbit (iterFunc fp) c (0, 0) (Suc k)) > 4" using Pk by (simp add: P_def)
  have k3: "\<forall>j < k. \<not> cAbs2 (orbit (iterFunc fp) c (0, 0) (Suc j)) > 4"
    using least k1 by (auto simp: P_def)
  have "escapeTime fp c =
        \<lparr> tally = 0 + k, zfin = orbit (iterFunc fp) c (0, 0) (Suc k), applied = 0 + k + 1 \<rparr>"
    unfolding escapeTime_def by (rule escLoop_escaped [OF k1 k2 k3])
  with k1 k2 k3 show ?thesis by auto
qed

text \<open>
  Claim C4. The engine starts from \<open>z = (0, 0)\<close> and applies the map repeatedly; the
  escape test \<open>cAbs2 z > 4\<close> is made on the iterates after each application only (the
  iterates \<open>1, 2, \<dots>\<close>, never the start value); the result is \<open>Escaped\<close> at the first
  application after which the test holds, and \<open>Captured\<close> exactly when the test fails
  after each of the \<open>max_iters\<close> applications. The value left in \<open>z\<close> is the iterate
  after the applications made, and with a positive budget the map is applied at least
  once whatever the start value is.
\<close>

theorem engine_algorithm:
  "(iterationResult fp c = Escaped k \<longleftrightarrow>
      k < max_iters fp \<and>
      cAbs2 (orbit (iterFunc fp) c (0, 0) (Suc k)) > 4 \<and>
      (\<forall>j < k. \<not> cAbs2 (orbit (iterFunc fp) c (0, 0) (Suc j)) > 4)) \<and>
   (iterationResult fp c = Captured \<longleftrightarrow>
      (\<forall>j < max_iters fp. \<not> cAbs2 (orbit (iterFunc fp) c (0, 0) (Suc j)) > 4)) \<and>
   zfin (escapeTime fp c) = orbit (iterFunc fp) c (0, 0) (applied (escapeTime fp c)) \<and>
   (\<forall>z. 0 < max_iters fp \<longrightarrow> 1 \<le> applied (escLoop (iterFunc fp) c (max_iters fp) 0 z 0))"
proof -
  have first: "\<forall>z. 0 < max_iters fp \<longrightarrow>
      1 \<le> applied (escLoop (iterFunc fp) c (max_iters fp) 0 z 0)"
    using escLoop_applies_first by blast
  let ?esc = "\<lambda>j. cAbs2 (orbit (iterFunc fp) c (0, 0) (Suc j)) > 4"
  consider
    (cap) "\<forall>j < max_iters fp. \<not> ?esc j"
      "escapeTime fp c =
         \<lparr> tally = max_iters fp, zfin = orbit (iterFunc fp) c (0, 0) (max_iters fp),
           applied = max_iters fp \<rparr>"
  | (esc) k' where "k' < max_iters fp" "?esc k'" "\<forall>j < k'. \<not> ?esc j"
      "escapeTime fp c =
         \<lparr> tally = k', zfin = orbit (iterFunc fp) c (0, 0) (Suc k'), applied = k' + 1 \<rparr>"
    using escapeTime_cases [of fp c] by blast
  then show ?thesis
  proof cases
    case cap
    have "iterationResult fp c = Captured"
      by (simp add: iterationResult_def cap(2))
    moreover have "\<not> (k < max_iters fp \<and> ?esc k)" using cap(1) by blast
    ultimately show ?thesis using cap first by auto
  next
    case esc
    have r: "iterationResult fp c = Escaped k'"
      using esc(1) by (simp add: iterationResult_def esc(4))
    have "k = k'" if "k < max_iters fp" "?esc k" "\<forall>j < k. \<not> ?esc j"
    proof (rule ccontr)
      assume "k \<noteq> k'"
      then consider "k < k'" | "k' < k" by linarith
      then show False using that esc(2,3) by cases auto
    qed
    then show ?thesis using r esc first by auto
  qed
qed

theorem engine_algorithm_witness:
  "(iterationResult frac_params_init (1 / 2, 0) = Escaped 4 \<and>
    4 < max_iters frac_params_init \<and>
    cAbs2 (orbit (iterFunc frac_params_init) (1 / 2, 0) (0, 0) (Suc 4)) > 4 \<and>
    \<not> cAbs2 (orbit (iterFunc frac_params_init) (1 / 2, 0) (0, 0) (Suc 0)) > 4 \<and>
    \<not> cAbs2 (orbit (iterFunc frac_params_init) (1 / 2, 0) (0, 0) (Suc 1)) > 4 \<and>
    \<not> cAbs2 (orbit (iterFunc frac_params_init) (1 / 2, 0) (0, 0) (Suc 2)) > 4 \<and>
    \<not> cAbs2 (orbit (iterFunc frac_params_init) (1 / 2, 0) (0, 0) (Suc 3)) > 4) \<and>
   (iterationResult (frac_params_init\<lparr>max_iters := 3\<rparr>) (0, 0) = Captured \<and>
    max_iters (frac_params_init\<lparr>max_iters := 3\<rparr>) = 3 \<and>
    \<not> cAbs2 (orbit (iterFunc (frac_params_init\<lparr>max_iters := 3\<rparr>)) (0, 0) (0, 0) (Suc 0)) > 4 \<and>
    \<not> cAbs2 (orbit (iterFunc (frac_params_init\<lparr>max_iters := 3\<rparr>)) (0, 0) (0, 0) (Suc 1)) > 4 \<and>
    \<not> cAbs2 (orbit (iterFunc (frac_params_init\<lparr>max_iters := 3\<rparr>)) (0, 0) (0, 0) (Suc 2)) > 4) \<and>
   (0 < max_iters frac_params_init \<and> cAbs2 (3, 0) > 4 \<and>
    1 \<le> applied (escLoop (iterFunc frac_params_init) (1 / 2, 0)
                    (max_iters frac_params_init) 0 (3, 0) 0))"
proof -
  have a: "4 < max_iters frac_params_init" by (simp add: frac_params_init_def)
  have b: "cAbs2 (orbit (iterFunc frac_params_init) (1 / 2, 0) (0, 0) (Suc 4)) > 4"
    by (simp add: orbit_def frac_params_init_def numeral_eq_Suc cAdd_def cMult_def cAbs2_def
          power2_eq_square)
  have c: "\<forall>j < 4. \<not> cAbs2 (orbit (iterFunc frac_params_init) (1 / 2, 0) (0, 0) (Suc j)) > 4"
    by (simp add: orbit_def frac_params_init_def numeral_eq_Suc less_Suc_eq cAdd_def cMult_def
          cAbs2_def power2_eq_square)
  have d: "\<forall>j < max_iters (frac_params_init\<lparr>max_iters := 3\<rparr>).
       \<not> cAbs2 (orbit (iterFunc (frac_params_init\<lparr>max_iters := 3\<rparr>)) (0, 0) (0, 0) (Suc j)) > 4"
    by (simp add: orbit_def frac_params_init_def numeral_eq_Suc less_Suc_eq cAdd_def cMult_def
          cAbs2_def power2_eq_square)
  have e: "0 < max_iters frac_params_init" by (simp add: frac_params_init_def)
  have f: "cAbs2 (3, 0) > 4" by (simp add: cAbs2_def)
  from a b c engine_algorithm [of frac_params_init "(1 / 2, 0)" 4]
  have 1: "iterationResult frac_params_init (1 / 2, 0) = Escaped 4" by blast
  from d engine_algorithm [of "frac_params_init\<lparr>max_iters := 3\<rparr>" "(0, 0)" 0]
  have 2: "iterationResult (frac_params_init\<lparr>max_iters := 3\<rparr>) (0, 0) = Captured" by blast
  from e engine_algorithm [of frac_params_init "(1 / 2, 0)" 0]
  have 3: "1 \<le> applied (escLoop (iterFunc frac_params_init) (1 / 2, 0)
                    (max_iters frac_params_init) 0 (3, 0) 0)" by blast
  have g: "max_iters (frac_params_init\<lparr>max_iters := 3\<rparr>) = 3" by simp
  have c': "\<not> cAbs2 (orbit (iterFunc frac_params_init) (1 / 2, 0) (0, 0) (Suc 0)) > 4 \<and>
    \<not> cAbs2 (orbit (iterFunc frac_params_init) (1 / 2, 0) (0, 0) (Suc 1)) > 4 \<and>
    \<not> cAbs2 (orbit (iterFunc frac_params_init) (1 / 2, 0) (0, 0) (Suc 2)) > 4 \<and>
    \<not> cAbs2 (orbit (iterFunc frac_params_init) (1 / 2, 0) (0, 0) (Suc 3)) > 4"
    using c [rule_format, of 0] c [rule_format, of 1] c [rule_format, of 2]
      c [rule_format, of 3] by simp
  have d': "\<not> cAbs2 (orbit (iterFunc (frac_params_init\<lparr>max_iters := 3\<rparr>)) (0, 0) (0, 0) (Suc 0)) > 4 \<and>
    \<not> cAbs2 (orbit (iterFunc (frac_params_init\<lparr>max_iters := 3\<rparr>)) (0, 0) (0, 0) (Suc 1)) > 4 \<and>
    \<not> cAbs2 (orbit (iterFunc (frac_params_init\<lparr>max_iters := 3\<rparr>)) (0, 0) (0, 0) (Suc 2)) > 4"
    using d [rule_format, of 0] d [rule_format, of 1] d [rule_format, of 2] by simp
  from 1 2 3 a b c' d' e f g show ?thesis by blast
qed

section \<open>The iteration budget\<close>

lemma pixel_count_aux: "0 < (L::nat) \<Longrightarrow> (L + 3) div 4 = Suc ((L - 4 + 3) div 4)"
proof (cases "L < 4")
  case True
  assume "0 < L"
  then have "4 * 1 \<le> L + 3" by simp
  moreover have "L + 3 < 4 * Suc 1" using True by simp
  ultimately have "(L + 3) div 4 = 1" by (rule div_nat_eqI)
  moreover have "L - 4 = 0" using True by simp
  ultimately show ?thesis by simp
next
  case False
  then obtain M where M: "L = M + 4" by (metis add.commute le_add_diff_inverse not_less)
  have "(M + 3 + 4) div 4 = Suc ((M + 3) div 4)" by (simp only: div_add_self2)
  moreover have "M + 4 + 3 = M + 3 + 4" by simp
  ultimately show ?thesis unfolding M by (simp only: add_diff_cancel_right')
qed

lemma pixel_count_step: "(pxi::nat) < len \<Longrightarrow> (len - pxi + 3) div 4 = Suc ((len - (pxi + 4) + 3) div 4)"
  using pixel_count_aux [of "len - pxi"] by (simp only: diff_diff_left zero_less_diff)

lemma pixelLoop_calls_le:
  "snd (pixelLoop fp cv data pxi n) \<le> n + max_iters fp * ((length data - pxi + 3) div 4)"
proof (induction fp cv data pxi n rule: pixelLoop.induct)
  case (1 fp cv data pxi n)
  show ?case
  proof (cases "pxi < length data")
    case True
    let ?c = "pixelIndexToComp fp cv (real pxi)"
    let ?d = "setPixelColor data pxi (pixelColor fp ?c)"
    have len: "length ?d = length data"
      by (cases "pixelColor fp ?c") (simp add: setPixelColor_def)
    have step: "pixelLoop fp cv data pxi n =
        pixelLoop fp cv ?d (pxi + 4) (n + applied (escapeTime fp ?c))"
      using True by (simp add: pixelLoop.simps [of fp cv data pxi])
    have ih: "snd (pixelLoop fp cv ?d (pxi + 4) (n + applied (escapeTime fp ?c)))
        \<le> (n + applied (escapeTime fp ?c)) + max_iters fp * ((length ?d - (pxi + 4) + 3) div 4)"
      using True "1.IH" by simp
    have app: "applied (escapeTime fp ?c) \<le> max_iters fp"
      using escLoop_applied_le [of "iterFunc fp" ?c "max_iters fp" 0 "(0, 0)" 0]
      by (simp add: escapeTime_def)
    have cnt: "(length data - pxi + 3) div 4 = Suc ((length data - (pxi + 4) + 3) div 4)"
      using True by (rule pixel_count_step)
    have "snd (pixelLoop fp cv data pxi n) =
        snd (pixelLoop fp cv ?d (pxi + 4) (n + applied (escapeTime fp ?c)))"
      by (simp only: step)
    also have "\<dots> \<le> (n + applied (escapeTime fp ?c)) +
        max_iters fp * ((length data - (pxi + 4) + 3) div 4)"
      using ih by (simp only: len)
    also have "\<dots> \<le> n + max_iters fp * Suc ((length data - (pxi + 4) + 3) div 4)"
      using app by simp
    also have "\<dots> = n + max_iters fp * ((length data - pxi + 3) div 4)"
      by (simp only: cnt)
    finally show ?thesis .
  next
    case False
    then show ?thesis by (simp add: pixelLoop.simps [of fp cv data pxi])
  qed
qed

text \<open>
  Claim C10. For every seed and every budget the escape loop ends after at most
  \<open>max_iters\<close> applications of the map (and leaves a tally of at most \<open>max_iters\<close>);
  a render pass over a bitmap makes at most \<open>max_iters\<close> applications for each of its
  pixels, so it ends as well. Both loops are total functions, with the measures
  \<open>max_iters - tally\<close> and \<open>length data - pxi\<close>.
\<close>

theorem iteration_budget_bounds_work:
  "applied (escapeTime fp c) \<le> max_iters fp \<and>
   tally (escapeTime fp c) \<le> max_iters fp \<and>
   genFractalCalls fp draw_area bitmap \<le> max_iters fp * ((length bitmap + 3) div 4)"
proof -
  have a: "applied (escapeTime fp c) \<le> max_iters fp"
    using escLoop_applied_le [of "iterFunc fp" c "max_iters fp" 0 "(0, 0)" 0]
    by (simp add: escapeTime_def)
  have b: "tally (escapeTime fp c) \<le> max_iters fp"
    using escapeTime_cases [of fp c] by auto
  have c: "genFractalCalls fp draw_area bitmap \<le> max_iters fp * ((length bitmap + 3) div 4)"
    using pixelLoop_calls_le [of fp draw_area bitmap 0 0] by (simp add: genFractalCalls_def)
  from a b c show ?thesis by blast
qed

section \<open>The seed zero\<close>

lemma orbit_zero: "orbit (\<lambda>z c. cAdd (cMult z z) c) (0, 0) (0, 0) n = (0, 0)"
  by (induction n) (simp_all add: orbit_def cAdd_def cMult_def)

text \<open>
  Claim C8. With the iterate \<open>z\<^sup>2 + c\<close> and the seed \<open>c = (0, 0)\<close> the engine returns
  \<open>Captured\<close> for every budget of at least one iteration: every iterate is \<open>(0, 0)\<close>,
  so the escape test never holds.
\<close>

theorem zero_seed_captured:
  "1 \<le> max_iters fp \<Longrightarrow> iterFunc fp = (\<lambda>z c. cAdd (cMult z z) c) \<Longrightarrow>
   iterationResult fp (0, 0) = Captured \<and> zfin (escapeTime fp (0, 0)) = (0, 0) \<and>
   (\<forall>n. orbit (iterFunc fp) (0, 0) (0, 0) n = (0, 0))"
proof -
  assume f: "iterFunc fp = (\<lambda>z c. cAdd (cMult z z) c)"
  have all: "\<forall>j < max_iters fp - 0. \<not> cAbs2 (orbit (iterFunc fp) (0, 0) (0, 0) (Suc j)) > 4"
    by (simp add: f orbit_zero cAbs2_def)
  have "escapeTime fp (0, 0) =
       \<lparr> tally = max_iters fp, zfin = orbit (iterFunc fp) (0, 0) (0, 0) (max_iters fp - 0),
         applied = 0 + (max_iters fp - 0) \<rparr>"
    unfolding escapeTime_def by (rule escLoop_captured [OF _ all]) simp
  then show ?thesis by (simp add: iterationResult_def f orbit_zero)
qed

theorem zero_seed_captured_witness:
  "1 \<le> max_iters frac_params_init \<and>
   iterFunc frac_params_init = (\<lambda>z c. cAdd (cMult z z) c) \<and>
   iterationResult frac_params_init (0, 0) = Captured"
proof -
  have a: "1 \<le> max_iters frac_params_init" by (simp add: frac_params_init_def)
  have b: "iterFunc frac_params_init = (\<lambda>z c. cAdd (cMult z z) c)"
    by (simp add: frac_params_init_def)
  from zero_seed_captured [OF a b] a b show ?thesis by blast
qed

section \<open>Pixel index to plane coordinate\<close>

lemma trunc_of_nat_div: "trunc (real m / real n) = int (m div n)"
proof -
  have "0 \<le> real m / real n" by simp
  then have "trunc (real m / real n) = \<lfloor>real m / real n\<rfloor>" by (simp add: trunc_def)
  also have "\<dots> = int (m div n)" by (rule floor_divide_of_nat_eq)
  finally show ?thesis .
qed

lemma js_rem_of_nat: "js_rem (real m) (real n) = real (m mod n)"
proof -
  have "real m = real (n * (m div n) + m mod n)" by simp
  also have "\<dots> = real n * real (m div n) + real (m mod n)" by (simp only: of_nat_add of_nat_mult)
  finally have "real m - real n * real (m div n) = real (m mod n)" by simp
  then show ?thesis by (simp add: js_rem_def trunc_of_nat_div)
qed

lemma pxIndex2Coord_row_major:
  assumes "col < width cv"
  shows "pxIndex2Coord cv (real (4 * (row * width cv + col))) = (real col, real row)"
proof -
  let ?W = "width cv"
  have W: "0 < ?W" using assms by simp
  have n: "real (4 * (row * ?W + col)) / 4 = real (row * ?W + col)" by simp
  have "(row * ?W + col) mod ?W = col" using assms by simp
  then have x: "js_rem (real (row * ?W + col)) (real ?W) = real col"
    by (simp only: js_rem_of_nat)
  have y: "(real (row * ?W + col) - real col) / real ?W = real row"
    using W by simp
  show ?thesis by (simp only: pxIndex2Coord_def Let_def n x y)
qed

text \<open>
  Claim C5. For every pixel index \<open>i\<close> on a canvas with area, the plane coordinate of
  \<open>i\<close> is \<open>bl + (vw / width * x, vh / height * (height - y))\<close> with
  \<open>x = (i / 4) % width\<close> and \<open>y = (i / 4 - x) / width\<close>. The indices are row-major
  with four channels per pixel: the index of column \<open>col\<close> and row \<open>row\<close> gives back
  \<open>x = col\<close> and \<open>y = row\<close>, and only the vertical axis is flipped.
\<close>

theorem pixelIndexToComp_formula:
  "0 < width draw_area \<Longrightarrow> 0 < height draw_area \<Longrightarrow>
   pixelIndexToComp fp draw_area i =
     (fst (bl fp) + vw fp / real (width draw_area) * js_rem (i / 4) (real (width draw_area)),
      snd (bl fp) + vh fp / real (height draw_area) *
        (real (height draw_area) -
           (i / 4 - js_rem (i / 4) (real (width draw_area))) / real (width draw_area))) \<and>
   (\<forall>col row. col < width draw_area \<longrightarrow>
      pxIndex2Coord draw_area (pxCoord2Index draw_area (real col, real row)) = (real col, real row) \<and>
      pixelIndexToComp fp draw_area (real (4 * (row * width draw_area + col))) =
        (fst (bl fp) + vw fp / real (width draw_area) * real col,
         snd (bl fp) + vh fp / real (height draw_area) * (real (height draw_area) - real row)))"
proof -
  have a: "pixelIndexToComp fp draw_area i =
     (fst (bl fp) + vw fp / real (width draw_area) * js_rem (i / 4) (real (width draw_area)),
      snd (bl fp) + vh fp / real (height draw_area) *
        (real (height draw_area) -
           (i / 4 - js_rem (i / 4) (real (width draw_area))) / real (width draw_area)))"
    by (simp add: pixelIndexToComp_def tile2Comp_def pxCoord2CompTile_def pxIndex2Coord_def Let_def)
  have b: "pxIndex2Coord draw_area (pxCoord2Index draw_area (real col, real row)) = (real col, real row)"
    if "col < width draw_area" for col row
  proof -
    have "pxCoord2Index draw_area (real col, real row) = real (4 * (row * width draw_area + col))"
      by (simp add: pxCoord2Index_def)
    with pxIndex2Coord_row_major [OF that, of row] show ?thesis by simp
  qed
  have c: "pixelIndexToComp fp draw_area (real (4 * (row * width draw_area + col))) =
        (fst (bl fp) + vw fp / real (width draw_area) * real col,
         snd (bl fp) + vh fp / real (height draw_area) * (real (height draw_area) - real row))"
    if "col < width draw_area" for col row
    by (simp only: pixelIndexToComp_def pxIndex2Coord_row_major [OF that])
       (simp add: tile2Comp_def pxCoord2CompTile_def)
  from a b c show ?thesis by blast
qed

theorem pixelIndexToComp_formula_witness:
  "0 < width \<lparr>width = 8, height = 2\<rparr> \<and> 0 < height \<lparr>width = 8, height = 2\<rparr> \<and>
   (7::nat) < width \<lparr>width = 8, height = 2\<rparr> \<and>
   pixelIndexToComp frac_params_init \<lparr>width = 8, height = 2\<rparr> (real (4 * (1 * 8 + 7))) = (1 / 2, 0)"
proof -
  have a: "0 < width \<lparr>width = 8, height = 2\<rparr>" by simp
  have b: "0 < height \<lparr>width = 8, height = 2\<rparr>" by simp
  have c: "(7::nat) < width \<lparr>width = 8, height = 2\<rparr>" by simp
  from pixelIndexToComp_formula [OF a b, of frac_params_init 0] c
  have "pixelIndexToComp frac_params_init \<lparr>width = 8, height = 2\<rparr>
          (real (4 * (1 * width \<lparr>width = 8, height = 2\<rparr> + 7))) =
        (fst (bl frac_params_init) + vw frac_params_init / real (width \<lparr>width = 8, height = 2\<rparr>) * real 7,
         snd (bl frac_params_init) + vh frac_params_init / real (height \<lparr>width = 8, height = 2\<rparr>) *
           (real (height \<lparr>width = 8, height = 2\<rparr>) - real 1))"
    by blast
  then have "pixelIndexToComp frac_params_init \<lparr>width = 8, height = 2\<rparr> (real (4 * (1 * 8 + 7))) =
      (1 / 2, 0)"
    by (simp add: frac_params_init_def)
  with a b c show ?thesis by blast
qed

section \<open>Zoom\<close>

text \<open>
  Claim C7. A click at the pixel \<open>(x, y)\<close> of a canvas with area has the plane
  coordinate \<open>p = bl + (vw / width * x, vh / height * (height - y))\<close>, the coordinate
  the render pass gives that pixel. The click halves \<open>vw\<close> and \<open>vh\<close> and sets
  \<open>bl = p - (vw' / 2, vh' / 2)\<close> for the new \<open>vw'\<close> and \<open>vh'\<close>, so that the middle of
  the canvas maps to \<open>p\<close> afterwards; the budget and the two functions stay. On the
  default view (\<open>bl = (-3, -1)\<close>, \<open>vw = 4\<close>, \<open>vh = 2\<close>) a click at plane coordinate
  \<open>(0, 0)\<close> gives \<open>vw = 2\<close>, \<open>vh = 1\<close> and \<open>bl = (-1, -0.5)\<close>.
\<close>

theorem click_zoom:
  "0 < width draw_area \<Longrightarrow> 0 < height draw_area \<Longrightarrow>
   vw (click fp draw_area pxcoord) = vw fp / 2 \<and>
   vh (click fp draw_area pxcoord) = vh fp / 2 \<and>
   bl (click fp draw_area pxcoord) =
     (fst (clicked fp draw_area pxcoord) - vw (click fp draw_area pxcoord) / 2,
      snd (clicked fp draw_area pxcoord) - vh (click fp draw_area pxcoord) / 2) \<and>
   tile2Comp (click fp draw_area pxcoord) draw_area
     (real (width draw_area) / 2, real (height draw_area) / 2) = clicked fp draw_area pxcoord \<and>
   (vw fp = 4 \<and> vh fp = 2 \<and> bl fp = (- 3, - 1) \<and> clicked fp draw_area pxcoord = (0, 0) \<longrightarrow>
      vw (click fp draw_area pxcoord) = 2 \<and> vh (click fp draw_area pxcoord) = 1 \<and>
      bl (click fp draw_area pxcoord) = (- 1, - (1 / 2))) \<and>
   clicked fp draw_area pxcoord =
     (fst (bl fp) + vw fp / real (width draw_area) * fst pxcoord,
      snd (bl fp) + vh fp / real (height draw_area) * (real (height draw_area) - snd pxcoord)) \<and>
   (\<forall>col row. col < width draw_area \<longrightarrow>
      clicked fp draw_area (real col, real row) =
        pixelIndexToComp fp draw_area (pxCoord2Index draw_area (real col, real row))) \<and>
   max_iters (click fp draw_area pxcoord) = max_iters fp \<and>
   iterFunc (click fp draw_area pxcoord) = iterFunc fp \<and>
   colorFunc (click fp draw_area pxcoord) = colorFunc fp"
proof -
  assume W: "0 < width draw_area" and H: "0 < height draw_area"
  have c: "clicked fp draw_area pxcoord =
     (fst (bl fp) + vw fp / real (width draw_area) * fst pxcoord,
      snd (bl fp) + vh fp / real (height draw_area) * (real (height draw_area) - snd pxcoord))"
    by (cases pxcoord) (simp add: clicked_def tile2Comp_def pxCoord2CompTile_def)
  have d: "clicked fp draw_area (real col, real row) =
        pixelIndexToComp fp draw_area (pxCoord2Index draw_area (real col, real row))"
    if "col < width draw_area" for col row
  proof -
    have "pxCoord2Index draw_area (real col, real row) = real (4 * (row * width draw_area + col))"
      by (simp add: pxCoord2Index_def)
    then show ?thesis
      by (simp only: pixelIndexToComp_def clicked_def pxIndex2Coord_row_major [OF that])
  qed
  have rest: "vw (click fp draw_area pxcoord) = vw fp / 2 \<and>
   vh (click fp draw_area pxcoord) = vh fp / 2 \<and>
   bl (click fp draw_area pxcoord) =
     (fst (clicked fp draw_area pxcoord) - vw (click fp draw_area pxcoord) / 2,
      snd (clicked fp draw_area pxcoord) - vh (click fp draw_area pxcoord) / 2) \<and>
   tile2Comp (click fp draw_area pxcoord) draw_area
     (real (width draw_area) / 2, real (height draw_area) / 2) = clicked fp draw_area pxcoord \<and>
   (vw fp = 4 \<and> vh fp = 2 \<and> bl fp = (- 3, - 1) \<and> clicked fp draw_area pxcoord = (0, 0) \<longrightarrow>
      vw (click fp draw_area pxcoord) = 2 \<and> vh (click fp draw_area pxcoord) = 1 \<and>
      bl (click fp draw_area pxcoord) = (- 1, - (1 / 2))) \<and>
   max_iters (click fp draw_area pxcoord) = max_iters fp \<and>
   iterFunc (click fp draw_area pxcoord) = iterFunc fp \<and>
   colorFunc (click fp draw_area pxcoord) = colorFunc fp"
    using W H by (simp add: click_def Let_def tile2Comp_def)
  from rest c d show ?thesis by blast
qed

theorem click_zoom_witness:
  "0 < width \<lparr>width = 4, height = 2\<rparr> \<and> 0 < height \<lparr>width = 4, height = 2\<rparr> \<and>
   vw frac_params_init = 4 \<and> vh frac_params_init = 2 \<and> bl frac_params_init = (- 3, - 1) \<and>
   clicked frac_params_init \<lparr>width = 4, height = 2\<rparr> (3, 1) = (0, 0) \<and>
   vw (click frac_params_init \<lparr>width = 4, height = 2\<rparr> (3, 1)) = 2 \<and>
   vh (click frac_params_init \<lparr>width = 4, height = 2\<rparr> (3, 1)) = 1 \<and>
   bl (click frac_params_init \<lparr>width = 4, height = 2\<rparr> (3, 1)) = (- 1, - (1 / 2)) \<and>
   clicked frac_params_init \<lparr>width = 4, height = 2\<rparr> (1, 0) = (- 2, 1) \<and>
   bl (click frac_params_init \<lparr>width = 4, height = 2\<rparr> (1, 0)) = (- 3, 1 / 2) \<and>
   (1::nat) < width \<lparr>width = 4, height = 2\<rparr> \<and>
   pixelIndexToComp frac_params_init \<lparr>width = 4, height = 2\<rparr>
     (pxCoord2Index \<lparr>width = 4, height = 2\<rparr> (real 1, real 0)) = (- 2, 1)"
proof -
  have a: "0 < width \<lparr>width = 4, height = 2\<rparr>" by simp
  have b: "0 < height \<lparr>width = 4, height = 2\<rparr>" by simp
  have c: "vw frac_params_init = 4 \<and> vh frac_params_init = 2 \<and> bl frac_params_init = (- 3, - 1)"
    by (simp add: frac_params_init_def)
  have e: "(1::nat) < width \<lparr>width = 4, height = 2\<rparr>" by simp
  note t1 = click_zoom [OF a b, of frac_params_init "(3, 1)"]
  note t2 = click_zoom [OF a b, of frac_params_init "(1, 0)"]
  from t1 have d: "clicked frac_params_init \<lparr>width = 4, height = 2\<rparr> (3, 1) = (0, 0)"
    by (simp add: frac_params_init_def)
  from t2 have f: "clicked frac_params_init \<lparr>width = 4, height = 2\<rparr> (1, 0) = (- 2, 1)"
    by (simp add: frac_params_init_def)
  from t2 f have g: "bl (click frac_params_init \<lparr>width = 4, height = 2\<rparr> (1, 0)) = (- 3, 1 / 2)"
    by (simp add: frac_params_init_def)
  from t2 e have "clicked frac_params_init \<lparr>width = 4, height = 2\<rparr> (real 1, real 0) =
      pixelIndexToComp frac_params_init \<lparr>width = 4, height = 2\<rparr>
        (pxCoord2Index \<lparr>width = 4, height = 2\<rparr> (real 1, real 0))"
    by blast
  with f have h: "pixelIndexToComp frac_params_init \<lparr>width = 4, height = 2\<rparr>
     (pxCoord2Index \<lparr>width = 4, height = 2\<rparr> (real 1, real 0)) = (- 2, 1)"
    by simp
  from t1 a b c d e f g h show ?thesis by blast
qed


section \<open>The render pass as a function of its inputs\<close>

lemma length_setPixelColor [simp]: "length (setPixelColor data index col) = length data"
  by (cases col) (simp add: setPixelColor_def)

lemma setPixelColor_nth:
  "i < length data \<Longrightarrow>
   setPixelColor data pxi (r, g, b, a) ! i =
     (if i = pxi + 3 then toUint8Clamp a
      else if i = pxi + 2 then toUint8Clamp b
      else if i = pxi + 1 then toUint8Clamp g
      else if i = pxi then toUint8Clamp r
      else data ! i)"
  by (simp add: setPixelColor_def nth_list_update)

lemma setPixelColor_agree:
  assumes len: "length d1 = length d2"
    and agree: "\<forall>i < pxi. i < length d1 \<longrightarrow> d1 ! i = d2 ! i"
  shows "\<forall>i < pxi + 4. i < length d1 \<longrightarrow>
           setPixelColor d1 pxi col ! i = setPixelColor d2 pxi col ! i"
proof (intro allI impI)
  fix i assume i: "i < pxi + 4" "i < length d1"
  obtain r g b a where col: "col = (r, g, b, a)" by (cases col) auto
  show "setPixelColor d1 pxi col ! i = setPixelColor d2 pxi col ! i"
  proof (cases "i < pxi")
    case True
    with agree i have "d1 ! i = d2 ! i" by blast
    with True i len show ?thesis by (simp add: col setPixelColor_nth)
  next
    case False
    with i have "i = pxi \<or> i = pxi + 1 \<or> i = pxi + 2 \<or> i = pxi + 3" by linarith
    with i len show ?thesis by (auto simp: col setPixelColor_nth)
  qed
qed

lemma pixelLoop_agree:
  "length d1 = length d2 \<Longrightarrow>
   \<forall>i < pxi. i < length d1 \<longrightarrow> d1 ! i = d2 ! i \<Longrightarrow>
   pixelLoop fp cv d1 pxi n = pixelLoop fp cv d2 pxi n"
proof (induction fp cv d1 pxi n arbitrary: d2 rule: pixelLoop.induct)
  case (1 fp cv d1 pxi n)
  show ?case
  proof (cases "pxi < length d1")
    case True
    let ?col = "pixelColor fp (pixelIndexToComp fp cv (real pxi))"
    let ?k = "n + applied (escapeTime fp (pixelIndexToComp fp cv (real pxi)))"
    have len': "length (setPixelColor d1 pxi ?col) = length (setPixelColor d2 pxi ?col)"
      using "1.prems"(1) by simp
    have agree': "\<forall>i < pxi + 4. i < length (setPixelColor d1 pxi ?col) \<longrightarrow>
        setPixelColor d1 pxi ?col ! i = setPixelColor d2 pxi ?col ! i"
      using setPixelColor_agree [OF "1.prems"(1) "1.prems"(2), of ?col] by simp
    have "pixelLoop fp cv (setPixelColor d1 pxi ?col) (pxi + 4) ?k =
          pixelLoop fp cv (setPixelColor d2 pxi ?col) (pxi + 4) ?k"
      using "1.IH" [OF True len' agree'] .
    moreover have "pxi < length d2" using True "1.prems"(1) by simp
    ultimately show ?thesis
      using True by (simp add: pixelLoop.simps [of fp cv d1 pxi] pixelLoop.simps [of fp cv d2 pxi])
  next
    case False
    then have eq: "d1 = d2"
      using "1.prems" by (intro nth_equalityI) auto
    show ?thesis by (simp only: eq)
  qed
qed

text \<open>
  Claim C9. A render pass is a function of the parameters, the canvas dimensions and
  nothing else: it reads the present bitmap of the canvas, but overwrites every byte of
  it, so two passes with the same parameters into two bitmaps of the same dimensions
  give identical pixel contents, whatever the bitmaps held before.
\<close>

theorem render_deterministic:
  "length bitmap1 = length bitmap2 \<Longrightarrow>
   genFractal fp draw_area bitmap1 = genFractal fp draw_area bitmap2"
  using pixelLoop_agree [of bitmap1 bitmap2 0 fp draw_area 0]
  by (simp add: genFractal_def)

theorem render_deterministic_witness:
  "length [0, 0, 0, 0 :: nat] = length [9, 8, 7, 6 :: nat] \<and>
   genFractal (frac_params_init\<lparr>max_iters := 2\<rparr>) \<lparr>width = 1, height = 1\<rparr> [0, 0, 0, 0] =
   genFractal (frac_params_init\<lparr>max_iters := 2\<rparr>) \<lparr>width = 1, height = 1\<rparr> [9, 8, 7, 6]"
proof -
  have a: "length [0, 0, 0, 0 :: nat] = length [9, 8, 7, 6 :: nat]" by simp
  from render_deterministic [OF a] a show ?thesis by blast
qed


section \<open>Captured pixels\<close>

lemma pixelLoop_length: "length (fst (pixelLoop fp cv data pxi n)) = length data"
proof (induction fp cv data pxi n rule: pixelLoop.induct)
  case (1 fp cv data pxi n)
  show ?case
  proof (cases "pxi < length data")
    case True
    then show ?thesis
      using "1.IH" by (simp add: pixelLoop.simps [of fp cv data pxi])
  next
    case False
    then show ?thesis by (simp add: pixelLoop.simps [of fp cv data pxi])
  qed
qed

lemma setPixelColor_below: "i < pxi \<Longrightarrow> setPixelColor data pxi col ! i = data ! i"
  by (cases col) (simp add: setPixelColor_def)

lemma pixelLoop_below:
  "i < pxi \<Longrightarrow> fst (pixelLoop fp cv data pxi n) ! i = data ! i"
proof (induction fp cv data pxi n rule: pixelLoop.induct)
  case (1 fp cv data pxi n)
  show ?case
  proof (cases "pxi < length data")
    case True
    let ?d = "setPixelColor data pxi (pixelColor fp (pixelIndexToComp fp cv (real pxi)))"
    let ?k = "n + applied (escapeTime fp (pixelIndexToComp fp cv (real pxi)))"
    have "fst (pixelLoop fp cv data pxi n) ! i = fst (pixelLoop fp cv ?d (pxi + 4) ?k) ! i"
      using True by (simp add: pixelLoop.simps [of fp cv data pxi])
    also have "\<dots> = ?d ! i" using "1.IH" [OF True] "1.prems" by simp
    also have "\<dots> = data ! i" using "1.prems" by (rule setPixelColor_below)
    finally show ?thesis .
  next
    case False
    then show ?thesis by (simp add: pixelLoop.simps [of fp cv data pxi])
  qed
qed

lemma pixelLoop_pixel:
  "pxi \<le> p \<Longrightarrow> 4 dvd (p - pxi) \<Longrightarrow> j < 4 \<Longrightarrow> p + j < length data \<Longrightarrow>
   fst (pixelLoop fp cv data pxi n) ! (p + j) =
     setPixelColor data p (pixelColor fp (pixelIndexToComp fp cv (real p))) ! (p + j)"
proof (induction fp cv data pxi n rule: pixelLoop.induct)
  case (1 fp cv data pxi n)
  let ?col = "\<lambda>q. pixelColor fp (pixelIndexToComp fp cv (real q))"
  let ?d = "setPixelColor data pxi (?col pxi)"
  let ?k = "n + applied (escapeTime fp (pixelIndexToComp fp cv (real pxi)))"
  have lt: "pxi < length data" using "1.prems" by simp
  have step: "fst (pixelLoop fp cv data pxi n) = fst (pixelLoop fp cv ?d (pxi + 4) ?k)"
    using lt by (simp add: pixelLoop.simps [of fp cv data pxi])
  show ?case
  proof (cases "p = pxi")
    case True
    have "fst (pixelLoop fp cv ?d (pxi + 4) ?k) ! (p + j) = ?d ! (p + j)"
      using "1.prems"(3) True by (intro pixelLoop_below) simp
    with step True show ?thesis by simp
  next
    case False
    with "1.prems"(1) have gt: "pxi < p" by simp
    from "1.prems"(2) obtain q where q: "p - pxi = 4 * q" by (auto simp: dvd_def)
    with gt have q0: "0 < q" by (cases q) simp_all
    have le: "pxi + 4 \<le> p" using q q0 gt by linarith
    have "p - (pxi + 4) = 4 * (q - 1)" using q q0 by simp
    then have dv: "4 dvd (p - (pxi + 4))" by simp
    have len: "p + j < length ?d" using "1.prems"(4) by simp
    have "fst (pixelLoop fp cv ?d (pxi + 4) ?k) ! (p + j) =
        setPixelColor ?d p (?col p) ! (p + j)"
      using "1.IH" [OF lt le dv "1.prems"(3) len] .
    also have "\<dots> = setPixelColor data p (?col p) ! (p + j)"
    proof -
      obtain r g b a where c: "?col p = (r, g, b, a)" by (cases "?col p") auto
      have "j = 0 \<or> j = 1 \<or> j = 2 \<or> j = 3" using "1.prems"(3) by linarith
      then show ?thesis
        using len "1.prems"(4) by (auto simp: c setPixelColor_nth)
    qed
    finally show ?thesis using step by simp
  qed
qed

text \<open>
  Claim C6. A pixel whose engine result is \<open>Captured\<close> gets the color
  \<open>(0, 0, 0, 255)\<close>, and the render pass leaves these four bytes at the index of the
  pixel in the bitmap; the result is the same whatever color function is configured,
  so the color function has no part in it.
\<close>

theorem captured_is_black:
  "iterationResult fp c = Captured \<Longrightarrow>
   pixelColor fp c = (Some 0, Some 0, Some 0, Some 255) \<and>
   pixelColor (fp\<lparr>colorFunc := cf\<rparr>) c = (Some 0, Some 0, Some 0, Some 255) \<and>
   setPixelColor data pxi (pixelColor (fp\<lparr>colorFunc := cf\<rparr>) c) =
     data[pxi := 0, pxi + 1 := 0, pxi + 2 := 0, pxi + 3 := 255] \<and>
   (\<forall>draw_area bitmap p.
      0 < width draw_area \<and> 0 < height draw_area \<and> 4 dvd p \<and> p + 3 < length bitmap \<and>
      pixelIndexToComp fp draw_area (real p) = c \<longrightarrow>
      (\<exists>out. genFractal (fp\<lparr>colorFunc := cf\<rparr>) draw_area bitmap = Inr out \<and>
         length out = length bitmap \<and>
         out ! p = 0 \<and> out ! (p + 1) = 0 \<and> out ! (p + 2) = 0 \<and> out ! (p + 3) = 255))"
proof -
  assume "iterationResult fp c = Captured"
  then have t: "tally (escapeTime fp c) = max_iters fp"
    by (simp add: iterationResult_def split: if_splits)
  have e: "escapeTime (fp\<lparr>colorFunc := cf\<rparr>) c = escapeTime fp c"
    by (simp add: escapeTime_def)
  have black: "pixelColor (fp\<lparr>colorFunc := cf\<rparr>) c = (Some 0, Some 0, Some 0, Some 255)"
    by (simp add: pixelColor_def e t)
  have abc: "pixelColor fp c = (Some 0, Some 0, Some 0, Some 255) \<and>
   pixelColor (fp\<lparr>colorFunc := cf\<rparr>) c = (Some 0, Some 0, Some 0, Some 255) \<and>
   setPixelColor data pxi (pixelColor (fp\<lparr>colorFunc := cf\<rparr>) c) =
     data[pxi := 0, pxi + 1 := 0, pxi + 2 := 0, pxi + 3 := 255]"
    by (simp add: pixelColor_def e t setPixelColor_def toUint8Clamp_def)
  have render: "\<exists>out. genFractal (fp\<lparr>colorFunc := cf\<rparr>) draw_area bitmap = Inr out \<and>
         length out = length bitmap \<and>
         out ! p = 0 \<and> out ! (p + 1) = 0 \<and> out ! (p + 2) = 0 \<and> out ! (p + 3) = 255"
    if h: "0 < width draw_area" "0 < height draw_area" "4 dvd p" "p + 3 < length bitmap"
      "pixelIndexToComp fp draw_area (real p) = c"
    for draw_area bitmap p
  proof -
    let ?fp = "fp\<lparr>colorFunc := cf\<rparr>"
    let ?out = "fst (pixelLoop ?fp draw_area bitmap 0 0)"
    have g: "genFractal ?fp draw_area bitmap = Inr ?out"
      using h(1,2) by (simp add: genFractal_def)
    have l: "length ?out = length bitmap" by (rule pixelLoop_length)
    have pc: "pixelIndexToComp ?fp draw_area (real p) = c"
      using h(5) by (simp add: pixelIndexToComp_def tile2Comp_def)
    have v: "?out ! (p + j) =
        setPixelColor bitmap p (Some 0, Some 0, Some 0, Some 255) ! (p + j)" if "j < 4" for j
    proof -
      have "p + j < length bitmap" using that h(4) by simp
      from pixelLoop_pixel [of 0 p j bitmap ?fp draw_area 0, OF _ _ that this] h(3)
      show ?thesis by (simp add: pc black)
    qed
    have v0: "?out ! p = 0" using v [of 0] h(4) by (simp add: setPixelColor_nth toUint8Clamp_def)
    have v1: "?out ! (p + 1) = 0"
      using v [of 1] h(4) by (simp add: setPixelColor_nth toUint8Clamp_def)
    have v2: "?out ! (p + 2) = 0"
      using v [of 2] h(4) by (simp add: setPixelColor_nth toUint8Clamp_def)
    have v3: "?out ! (p + 3) = 255"
      using v [of 3] h(4) by (simp add: setPixelColor_nth toUint8Clamp_def)
    from g l v0 v1 v2 v3 show ?thesis by blast
  qed
  from abc render show ?thesis by blast
qed

theorem captured_is_black_witness:
  "iterationResult (frac_params_init\<lparr>max_iters := 3\<rparr>) (0, 0) = Captured \<and>
   pixelColor (frac_params_init\<lparr>max_iters := 3, colorFunc := whiteEscape\<rparr>) (0, 0) =
     (Some 0, Some 0, Some 0, Some 255) \<and>
   setPixelColor [7, 7, 7, 7] 0
     (pixelColor (frac_params_init\<lparr>max_iters := 3, colorFunc := whiteEscape\<rparr>) (0, 0)) =
     [0, 0, 0, 255] \<and>
   0 < width \<lparr>width = 4, height = 2\<rparr> \<and> 0 < height \<lparr>width = 4, height = 2\<rparr> \<and>
   (4::nat) dvd 28 \<and> 28 + 3 < length (replicate 32 (7::nat)) \<and>
   pixelIndexToComp (frac_params_init\<lparr>max_iters := 3\<rparr>) \<lparr>width = 4, height = 2\<rparr> (real 28) =
     (0, 0) \<and>
   (\<exists>out. genFractal (frac_params_init\<lparr>max_iters := 3, colorFunc := whiteEscape\<rparr>)
            \<lparr>width = 4, height = 2\<rparr> (replicate 32 7) = Inr out \<and>
      length out = length (replicate 32 (7::nat)) \<and>
      out ! 28 = 0 \<and> out ! (28 + 1) = 0 \<and> out ! (28 + 2) = 0 \<and> out ! (28 + 3) = 255)"
proof -
  have a: "iterationResult (frac_params_init\<lparr>max_iters := 3\<rparr>) (0, 0) = Captured"
    by (simp add: iterationResult_def escapeTime_def frac_params_init_def escLoop.simps
          cAdd_def cMult_def cAbs2_def)
  have b: "[7, 7, 7, 7 :: nat][0 := 0, 0 + 1 := 0, 0 + 2 := 0, 0 + 3 := 255] = [0, 0, 0, 255]"
    by (simp add: numeral_2_eq_2 numeral_3_eq_3)
  have h1: "0 < width \<lparr>width = 4, height = 2\<rparr>" by simp
  have h2: "0 < height \<lparr>width = 4, height = 2\<rparr>" by simp
  have h3: "(4::nat) dvd 28" by simp
  have h4: "28 + 3 < length (replicate 32 (7::nat))" by simp
  have h5: "pixelIndexToComp (frac_params_init\<lparr>max_iters := 3\<rparr>) \<lparr>width = 4, height = 2\<rparr>
      (real 28) = (0, 0)"
    by (simp add: pixelIndexToComp_def tile2Comp_def pxCoord2CompTile_def pxIndex2Coord_def
          js_rem_def trunc_def frac_params_init_def)
  note inst = captured_is_black [OF a, of whiteEscape "[7, 7, 7, 7]" 0]
  from inst
  have c1: "pixelColor (frac_params_init\<lparr>max_iters := 3, colorFunc := whiteEscape\<rparr>) (0, 0) =
      (Some 0, Some 0, Some 0, Some 255)"
    and c2: "setPixelColor [7, 7, 7, 7] 0
      (pixelColor (frac_params_init\<lparr>max_iters := 3, colorFunc := whiteEscape\<rparr>) (0, 0)) =
      [7, 7, 7, 7][0 := 0, 0 + 1 := 0, 0 + 2 := 0, 0 + 3 := 255]"
    by blast+
  from c2 b have c3: "setPixelColor [7, 7, 7, 7] 0
      (pixelColor (frac_params_init\<lparr>max_iters := 3, colorFunc := whiteEscape\<rparr>) (0, 0)) =
      [0, 0, 0, 255]"
    by (rule trans)
  from inst h1 h2 h3 h4 h5
  have c4: "\<exists>out. genFractal (frac_params_init\<lparr>max_iters := 3, colorFunc := whiteEscape\<rparr>)
            \<lparr>width = 4, height = 2\<rparr> (replicate 32 7) = Inr out \<and>
      length out = length (replicate 32 (7::nat)) \<and>
      out ! 28 = 0 \<and> out ! (28 + 1) = 0 \<and> out ! (28 + 2) = 0 \<and> out ! (28 + 3) = 255"
    by blast
  from a c1 c3 h1 h2 h3 h4 h5 c4 show ?thesis by blast
qed


section \<open>Bounds on the sine\<close>

lemma sin_lower_cubic:
  fixes x :: real
  assumes "0 \<le> x"
  shows "x - x ^ 3 / 6 \<le> sin x"
proof -
  have s: "(\<Sum>m<3. sin_coeff m * x ^ m) = x"
    by (simp add: numeral_3_eq_3 sin_coeff_def)
  have "\<bar>sin x - (\<Sum>m<3. sin_coeff m * x ^ m)\<bar> \<le> inverse (fact 3) * \<bar>x\<bar> ^ 3"
    by (rule Maclaurin_sin_bound)
  then have "\<bar>sin x - x\<bar> \<le> x ^ 3 / 6"
    using assms by (simp add: s fact_numeral)
  then show ?thesis by linarith
qed

lemma pi_ge_3: "3 \<le> pi"
proof -
  have "sin (pi / 6) \<le> pi / 6" by (rule sin_x_le_x) simp
  then show ?thesis by (simp add: sin_30)
qed

lemma pi_less_39: "pi < 39 / 10"
proof (rule ccontr)
  assume "\<not> pi < 39 / 10"
  then have le: "65 / 100 \<le> pi / 6" by simp
  have "sin (65 / 100) \<le> sin (pi / 6)"
  proof (rule sin_monotone_2pi_le)
    show "- (pi / 2) \<le> 65 / 100" using pi_ge_zero by linarith
    show "65 / 100 \<le> pi / 6" by (rule le)
    show "pi / 6 \<le> pi / 2" by simp
  qed
  then have "sin (65 / 100 :: real) \<le> 1 / 2" by (simp add: sin_30)
  moreover have "(65 / 100 :: real) - (65 / 100) ^ 3 / 6 \<le> sin (65 / 100)"
    by (rule sin_lower_cubic) simp
  moreover have "(1 / 2 :: real) < 65 / 100 - (65 / 100) ^ 3 / 6"
    by (simp add: power3_eq_cube)
  ultimately show False by linarith
qed

lemma sin_red_arg: "sin (506 / 125 :: real) \<le> - (11 / 100)"
proof -
  define y :: real where "y = 506 / 125 - pi"
  have y1: "148 / 1000 \<le> y" using pi_less_39 by (simp add: y_def)
  have y2: "y \<le> 1048 / 1000" using pi_ge_3 by (simp add: y_def)
  have y0: "0 \<le> y" using y1 by linarith
  have "y * y \<le> (1048 / 1000) * (1048 / 1000)"
    using y0 y2 by (intro mult_mono) simp_all
  then have "y * y \<le> 11 / 10" by simp
  then have "8 / 10 \<le> 1 - y * y / 6" by simp
  then have "(148 / 1000) * (8 / 10) \<le> y * (1 - y * y / 6)"
    using y1 by (intro mult_mono) simp_all
  then have a: "11 / 100 \<le> y * (1 - y * y / 6)" by linarith
  have b: "y * (1 - y * y / 6) = y - y ^ 3 / 6"
    by (simp add: power3_eq_cube algebra_simps)
  have c: "y - y ^ 3 / 6 \<le> sin y" using y0 by (rule sin_lower_cubic)
  from a b c have d: "11 / 100 \<le> sin y" by linarith
  have "sin (506 / 125 :: real) = sin (y + pi)" by (simp add: y_def)
  also have "\<dots> = - sin y" by (rule sin_periodic_pi)
  finally show ?thesis using d by linarith
qed


lemma escaped_tally:
  assumes "iterationResult fp c = Escaped k"
  shows "tally (escapeTime fp c) = k \<and> k \<noteq> max_iters fp \<and> applied (escapeTime fp c) = k + 1"
proof -
  from assms have t: "tally (escapeTime fp c) = k" and ne: "tally (escapeTime fp c) \<noteq> max_iters fp"
    by (auto simp: iterationResult_def split: if_splits)
  from escapeTime_cases [of fp c] ne have "applied (escapeTime fp c) = tally (escapeTime fp c) + 1"
    by auto
  with t ne show ?thesis by simp
qed

lemma escapeTime_half:
  "escapeTime frac_params_init (1 / 2, 0) =
     \<lparr> tally = 4, zfin = (206657 / 65536, 0), applied = 5 \<rparr>"
  by (simp add: escapeTime_def frac_params_init_def escLoop.simps cAdd_def cMult_def cAbs2_def
        power2_eq_square)

lemma escapeTime_three:
  "0 < max_iters fp \<Longrightarrow> iterFunc fp = (\<lambda>z c. cAdd (cMult z z) c) \<Longrightarrow>
   escapeTime fp (3, 0) = \<lparr> tally = 0, zfin = (3, 0), applied = 1 \<rparr>"
  by (simp add: escapeTime_def escLoop.simps [of _ _ _ 0] cAdd_def cMult_def cAbs2_def)

section \<open>The escape count\<close>

text \<open>
  Claim C3 as stated fails: for the seed \<open>(3, 0)\<close> the first application escapes, one
  application is completed, and the count returned and passed to the color function is
  \<open>0\<close>, not \<open>1\<close>.
\<close>

theorem escape_count_counterexample:
  "applied (escapeTime frac_params_init (3, 0)) = 1 \<and>
   iterationResult frac_params_init (3, 0) = Escaped 0 \<and>
   iterationResult frac_params_init (3, 0) \<noteq> Escaped 1 \<and>
   pixelColor frac_params_init (3, 0) = colorFunc frac_params_init 0 (3, 0)"
proof -
  have "escapeTime frac_params_init (3, 0) = \<lparr> tally = 0, zfin = (3, 0), applied = 1 \<rparr>"
    by (rule escapeTime_three) (simp_all add: frac_params_init_def)
  then show ?thesis
    by (simp add: iterationResult_def pixelColor_def) (simp add: frac_params_init_def)
qed

text \<open>
  Claim C3, amended. When the loop stops because the escape test succeeds, the count it
  returns (and passes to the color function) is the 0-based index of the escaping
  application, one less than the number of completed applications of the map; for the
  seed \<open>c = (3, 0)\<close> with the iterate \<open>z\<^sup>2 + c\<close> the engine returns \<open>Escaped\<close> with
  count \<open>0\<close> after one application.
\<close>

theorem escape_count_zero_based:
  "(iterationResult fp c = Escaped k \<longrightarrow>
      applied (escapeTime fp c) = k + 1 \<and>
      cAbs2 (zfin (escapeTime fp c)) > 4 \<and>
      pixelColor fp c = colorFunc fp (real k) c) \<and>
   (0 < max_iters fp \<and> iterFunc fp = (\<lambda>z c. cAdd (cMult z z) c) \<longrightarrow>
      iterationResult fp (3, 0) = Escaped 0 \<and> applied (escapeTime fp (3, 0)) = 1)"
proof -
  have a: "applied (escapeTime fp c) = k + 1 \<and> cAbs2 (zfin (escapeTime fp c)) > 4 \<and>
      pixelColor fp c = colorFunc fp (real k) c"
    if e: "iterationResult fp c = Escaped k"
  proof -
    from escaped_tally [OF e]
    have t: "tally (escapeTime fp c) = k" and ne: "k \<noteq> max_iters fp"
      and ap: "applied (escapeTime fp c) = k + 1" by blast+
    have z: "cAbs2 (zfin (escapeTime fp c)) > 4"
      using escapeTime_cases [of fp c] t ne by auto
    from t ne ap z show ?thesis by (simp add: pixelColor_def)
  qed
  have b: "iterationResult fp (3, 0) = Escaped 0 \<and> applied (escapeTime fp (3, 0)) = 1"
    if "0 < max_iters fp" "iterFunc fp = (\<lambda>z c. cAdd (cMult z z) c)"
    using escapeTime_three [OF that] that(1) by (simp add: iterationResult_def)
  from a b show ?thesis by blast
qed

theorem escape_count_zero_based_witness:
  "iterationResult frac_params_init (1 / 2, 0) = Escaped 4 \<and>
   applied (escapeTime frac_params_init (1 / 2, 0)) = 4 + 1 \<and>
   0 < max_iters frac_params_init \<and>
   iterFunc frac_params_init = (\<lambda>z c. cAdd (cMult z z) c) \<and>
   iterationResult frac_params_init (3, 0) = Escaped 0 \<and>
   applied (escapeTime frac_params_init (3, 0)) = 1"
proof -
  have a: "iterationResult frac_params_init (1 / 2, 0) = Escaped 4"
    by (simp add: iterationResult_def escapeTime_half) (simp add: frac_params_init_def)
  have b: "0 < max_iters frac_params_init" by (simp add: frac_params_init_def)
  have c: "iterFunc frac_params_init = (\<lambda>z c. cAdd (cMult z z) c)"
    by (simp add: frac_params_init_def)
  from escape_count_zero_based [of frac_params_init "(1 / 2, 0)" 4] a b c show ?thesis by blast
qed

section \<open>The smoothed index\<close>

lemma ln_ln_zfin_less: "ln (ln (cAbs (206657 / 65536, 0))) / ln 2 < 1"
proof -
  have abs: "cAbs (206657 / 65536, 0) = 206657 / 65536"
    by (simp add: cAbs_def cAbs2_def)
  have "(2::real) \<le> exp 1" using exp_ge_add_one_self [of "1::real"] by simp
  then have "(2::real) * 2 \<le> exp 1 * exp 1" by (intro mult_mono) simp_all
  also have "exp 1 * exp 1 = exp (2::real)" by (simp add: exp_add [symmetric])
  finally have e2: "(4::real) \<le> exp 2" by simp
  have "ln (206657 / 65536 :: real) < ln (exp 2)"
    using e2 by (subst ln_less_cancel_iff) simp_all
  then have l2: "ln (206657 / 65536 :: real) < 2" by simp
  have l0: "0 < ln (206657 / 65536 :: real)" by simp
  from l0 l2 have "ln (ln (206657 / 65536 :: real)) < ln 2"
    by (subst ln_less_cancel_iff) simp_all
  then show ?thesis by (simp add: abs)
qed

text \<open>
  Claim C1 as stated fails: for the seed \<open>(1 / 2, 0)\<close> the loop leaves the tally \<open>4\<close>
  after five applications and the final iterate \<open>(206657 / 65536, 0)\<close>; the color
  function gets the tally and the seed, its smoothed index is \<open>3\<close>, and that is not
  \<open>count + 1 - ln (ln |z|) / ln 2\<close> for the final iterate \<open>z\<close>, whether the count is
  taken as the tally or as the number of applications.
\<close>

theorem smoothed_index_counterexample:
  "escapeTime frac_params_init (1 / 2, 0) =
     \<lparr> tally = 4, zfin = (206657 / 65536, 0), applied = 5 \<rparr> \<and>
   pixelColor frac_params_init (1 / 2, 0) = pcl 4 (1 / 2, 0) \<and>
   smoothIters 4 (1 / 2, 0) = Some 3 \<and>
   (3::real) \<noteq> 4 + 1 - ln (ln (cAbs (206657 / 65536, 0))) / ln 2 \<and>
   (3::real) \<noteq> 5 + 1 - ln (ln (cAbs (206657 / 65536, 0))) / ln 2"
proof -
  have a: "pixelColor frac_params_init (1 / 2, 0) = pcl 4 (1 / 2, 0)"
    by (simp add: pixelColor_def escapeTime_half) (simp add: frac_params_init_def)
  have b: "smoothIters 4 (1 / 2, 0) = Some 3"
    by (simp add: smoothIters_def cAbs_def cAbs2_def real_sqrt_divide power2_eq_square)
  from ln_ln_zfin_less have c: "(3::real) \<noteq> 4 + 1 - ln (ln (cAbs (206657 / 65536, 0))) / ln 2"
    and d: "(3::real) \<noteq> 5 + 1 - ln (ln (cAbs (206657 / 65536, 0))) / ln 2" by linarith+
  from escapeTime_half a b c d show ?thesis by blast
qed

text \<open>
  Claim C1, amended. For every escaped pixel the color function is called with the raw
  tally and the seed \<open>c\<close> of the pixel (its plane coordinate), not with the final
  iterate; the smoothed index of the phased color loop is \<open>smoothIters\<close> of these two,
  the same for all three channels, and it is a function of the raw tally and the
  magnitude of the seed only.
\<close>

theorem smoothed_index_uses_seed:
  "(iterationResult fp c = Escaped k \<longrightarrow> pixelColor fp c = colorFunc fp (real k) c) \<and>
   makePhasedColorLoop (pr, pg, pb) i z =
     (pclChannel (smoothIters i z) pr, pclChannel (smoothIters i z) pg,
      pclChannel (smoothIters i z) pb, Some 255) \<and>
   (cAbs z = cAbs z' \<longrightarrow> smoothIters i z = smoothIters i z')"
proof -
  have a: "pixelColor fp c = colorFunc fp (real k) c" if e: "iterationResult fp c = Escaped k"
    using escaped_tally [OF e] by (simp add: pixelColor_def)
  have b: "makePhasedColorLoop (pr, pg, pb) i z =
     (pclChannel (smoothIters i z) pr, pclChannel (smoothIters i z) pg,
      pclChannel (smoothIters i z) pb, Some 255)"
    by (simp add: makePhasedColorLoop_def Let_def)
  have c: "smoothIters i z = smoothIters i z'" if "cAbs z = cAbs z'"
    using that by (simp add: smoothIters_def)
  from a b c show ?thesis by blast
qed

theorem smoothed_index_uses_seed_witness:
  "iterationResult frac_params_init (1 / 2, 0) = Escaped 4 \<and>
   pixelColor frac_params_init (1 / 2, 0) = colorFunc frac_params_init (real 4) (1 / 2, 0) \<and>
   cAbs (1 / 2, 0) = cAbs (0, - (1 / 2)) \<and>
   smoothIters 4 (1 / 2, 0) = smoothIters 4 (0, - (1 / 2))"
proof -
  have a: "iterationResult frac_params_init (1 / 2, 0) = Escaped 4"
    by (simp add: iterationResult_def escapeTime_half) (simp add: frac_params_init_def)
  have b: "cAbs (1 / 2, 0) = cAbs (0, - (1 / 2))" by (simp add: cAbs_def cAbs2_def)
  from smoothed_index_uses_seed [of frac_params_init "(1 / 2, 0)" 4 _ _ _ 4 "(1 / 2, 0)" "(0, - (1 / 2))"]
    a b show ?thesis by blast
qed

section \<open>The channels of the phased color loop\<close>

text \<open>
  Claim C2 asks for every channel value of the phased color loop to be an integer in
  \<open>[0, 255]\<close>. The color function returns the raw value
  \<open>sin (f * s + p) * (255 - min) + min\<close>: with the default channel parameters, pixel
  index \<open>60\<close> of a canvas of 8 by 2 pixels has the seed \<open>(1 / 2, 0)\<close>, escapes with
  tally \<open>4\<close>, and its red channel is \<open>sin (506 / 125) * 230 + 25\<close>, a negative number.
  Only the store into the bitmap clamps it, to \<open>0\<close>.
\<close>

theorem pcl_red_channel_below_range:
  "pixelIndexToComp frac_params_init \<lparr>width = 8, height = 2\<rparr> 60 = (1 / 2, 0) \<and>
   iterationResult frac_params_init (1 / 2, 0) = Escaped 4 \<and>
   pixelColor frac_params_init (1 / 2, 0) =
     (Some (sin (506 / 125) * 230 + 25), Some (sin (239 / 100) * 230 + 25),
      Some (sin (103 / 100) * 230 + 25), Some 255) \<and>
   sin (506 / 125) * 230 + 25 < (0::real) \<and>
   toUint8Clamp (Some (sin (506 / 125) * 230 + 25)) = 0"
proof -
  have a: "pixelIndexToComp frac_params_init \<lparr>width = 8, height = 2\<rparr> 60 = (1 / 2, 0)"
    by (simp add: pixelIndexToComp_def tile2Comp_def pxCoord2CompTile_def pxIndex2Coord_def
          js_rem_def trunc_def frac_params_init_def)
  have b: "iterationResult frac_params_init (1 / 2, 0) = Escaped 4"
    by (simp add: iterationResult_def escapeTime_half) (simp add: frac_params_init_def)
  have s: "smoothIters 4 (1 / 2, 0) = Some 3"
    by (simp add: smoothIters_def cAbs_def cAbs2_def real_sqrt_divide power2_eq_square)
  have "pixelColor frac_params_init (1 / 2, 0) = pcl 4 (1 / 2, 0)"
    by (simp add: pixelColor_def escapeTime_half) (simp add: frac_params_init_def)
  also have "\<dots> = (Some (sin (506 / 125) * 230 + 25), Some (sin (239 / 100) * 230 + 25),
      Some (sin (103 / 100) * 230 + 25), Some 255)"
    by (simp add: pcl_def makePhasedColorLoop_def s pclChannel_def)
  finally have c: "pixelColor frac_params_init (1 / 2, 0) =
     (Some (sin (506 / 125) * 230 + 25), Some (sin (239 / 100) * 230 + 25),
      Some (sin (103 / 100) * 230 + 25), Some 255)" .
  have d: "sin (506 / 125) * 230 + 25 < (0::real)" using sin_red_arg by linarith
  then have e: "toUint8Clamp (Some (sin (506 / 125) * 230 + 25)) = 0"
    by (simp add: toUint8Clamp_def)
  from a b c d e show ?thesis by blast
qed

end
